theory Spec2Isabelle
  imports Main
begin

section \<open>JavaScript values\<close>

text \<open>
  Strings are lists of \<^typ>\<open>char\<close>, read as the bytes of the UTF-8 form of the
  JavaScript string. The source only searches for ASCII characters and concatenates,
  which acts on the UTF-8 bytes as it does on the UTF-16 code units, so
  \<^verbatim>\<open>new Buffer(s, 'utf8')\<close> keeps the list as it is and \<^verbatim>\<open>body.length\<close> is its
  length. A value that may be \<^verbatim>\<open>undefined\<close> is an \<open>option\<close>, with \<open>None\<close> for
  \<^verbatim>\<open>undefined\<close>.
\<close>

definition truthy_num :: "int option \<Rightarrow> bool" where
  "truthy_num v = (case v of None \<Rightarrow> False | Some n \<Rightarrow> n \<noteq> 0)"

definition truthy_str :: "string option \<Rightarrow> bool" where
  "truthy_str v = (case v of None \<Rightarrow> False | Some s \<Rightarrow> s \<noteq> [])"

text \<open>\<^verbatim>\<open>String(v)\<close> and \<^verbatim>\<open>'' + v\<close> for a value that is a string or \<^verbatim>\<open>undefined\<close>.\<close>

definition ToString :: "string option \<Rightarrow> string" where
  "ToString v = (case v of None \<Rightarrow> ''undefined'' | Some s \<Rightarrow> s)"

section \<open>The data of a request\<close>

text \<open>
  The error passed to the handler. Only four things are read from it: the fields
  \<^verbatim>\<open>statusCode\<close>, \<^verbatim>\<open>status\<close> and \<^verbatim>\<open>stack\<close>, and its string conversion
  \<^verbatim>\<open>String(err)\<close>. A falsy argument (no error) is \<open>None\<close> at the handler.
\<close>

record js_error =
  err_statusCode :: "int option"
  err_status :: "int option"
  err_stack :: "string option"
  err_string :: string

text \<open>A user function such as \<^verbatim>\<open>options.onerror\<close> is opaque: it is known by a name.\<close>

datatype fn = Fn string

record options =
  onerror :: "fn option"
  stacktrace :: "bool option"

text \<open>A \<^verbatim>\<open>Buffer\<close> with the \<^verbatim>\<open>type\<close> property the source adds to it.\<close>

record buffer =
  bytes :: string
  type :: string

text \<open>The closure \<^verbatim>\<open>write\<close> of \<^verbatim>\<open>send\<close>, with the status and body it captured.\<close>

datatype listener = Write int buffer

text \<open>
  The request: the fields the handler reads (\<open>req_method\<close> is \<^verbatim>\<open>req.method\<close>), the
  \<^verbatim>\<open>Accept\<close> header the negotiation reads, and the state of its stream and socket
  as far as \<^verbatim>\<open>isFinished\<close>, \<^verbatim>\<open>unpipe\<close>, \<^verbatim>\<open>onFinished\<close>, \<^verbatim>\<open>resume\<close> and
  \<^verbatim>\<open>socket.destroy\<close> see or change it.
\<close>

record request =
  req_method :: string
  url :: string
  originalUrl :: "string option"
  accept :: "string option"
  finished :: bool
  pipes :: "string list"
  listeners :: "listener list"
  flowing :: bool
  socket_destroyed :: bool

datatype header_value = HStr string | HNum nat

text \<open>
  The response: \<open>header_sent\<close> is the truth value of \<^verbatim>\<open>res._header\<close>, which the
  source tests and never reads; \<open>headers\<close> holds what \<^verbatim>\<open>setHeader\<close> stored;
  \<open>end_calls\<close> lists the argument of every \<^verbatim>\<open>res.end\<close> so far (\<open>None\<close> for a
  call without a body).
\<close>

record response =
  statusCode :: int
  header_sent :: bool
  headers :: "string \<rightharpoonup> header_value"
  end_calls :: "string option list"

text \<open>
  The exception of \<^verbatim>\<open>res.setHeader\<close> on a response whose headers have been sent
  (\<^verbatim>\<open>Can't set headers after they are sent\<close>).
\<close>

datatype error = HeadersSent

text \<open>An argument of a deferred call, and the call itself.\<close>

datatype arg = ArgErr js_error | ArgReq | ArgRes

datatype task = Task fn "arg list"

text \<open>
  The state one invocation works on: the request, the response, the queue of
  deferred calls, the deferred calls that have been run, and the exceptions that a
  write has thrown, in the order they were thrown.
\<close>

record world =
  req :: request
  res :: response
  deferred :: "task list"
  invoked :: "task list"
  thrown :: "error list"

text \<open>
  What the module takes from Node and its dependencies and does not define: the
  reason phrase table \<^verbatim>\<open>http.STATUS_CODES\<close> and the content negotiation
  \<^verbatim>\<open>accepts(req).types(...)\<close>, whose result is a candidate or \<^verbatim>\<open>false\<close> (\<open>None\<close>).
\<close>

record deps =
  STATUS_CODES :: "int \<Rightarrow> string option"
  accepts_types :: "request \<Rightarrow> string list \<Rightarrow> string option"

section \<open>Rendering the body\<close>

text \<open>
  Modelled from the spec: the dependency \<^verbatim>\<open>escape-html\<close> is not part of the
  sources; the spec has it escape ampersand, both quotes and the angle brackets.
\<close>

definition escape_char :: "char \<Rightarrow> string" where
  "escape_char c =
     (if c = CHR ''&'' then ''&amp;''
      else if c = CHR 0x22 then ''&quot;''
      else if c = CHR 0x27 then ''&#39;''
      else if c = CHR ''<'' then ''&lt;''
      else if c = CHR ''>'' then ''&gt;''
      else [c])"

definition escapeHtml :: "string \<Rightarrow> string" where
  "escapeHtml s = concat (map escape_char s)"

text \<open>\<^verbatim>\<open>.replace(/\n/g, '<br>')\<close>\<close>

definition replace_newlines :: "string \<Rightarrow> string" where
  "replace_newlines s = concat (map (\<lambda>c. if c = CHR ''\<newline>'' then ''<br>'' else [c]) s)"

text \<open>
  \<^verbatim>\<open>.replace(/  /g, ' &nbsp;')\<close>: the matches are found from the left and do not
  overlap.
\<close>

fun replace_double_spaces :: "string \<Rightarrow> string" where
  "replace_double_spaces (a # b # cs) =
     (if a = CHR '' '' \<and> b = CHR '' '' then '' &nbsp;'' @ replace_double_spaces cs
      else a # replace_double_spaces (b # cs))"
| "replace_double_spaces cs = cs"

text \<open>Whether a string has two spaces next to each other.\<close>

fun has_double_space :: "string \<Rightarrow> bool" where
  "has_double_space (a # b # cs) =
     ((a = CHR '' '' \<and> b = CHR '' '') \<or> has_double_space (b # cs))"
| "has_double_space cs = False"

definition constructHtmlBody :: "(int \<Rightarrow> string option) \<Rightarrow> int \<Rightarrow> string option \<Rightarrow> buffer" where
  "constructHtmlBody codes status message =
     (let msg = replace_double_spaces (replace_newlines (escapeHtml (ToString message)));
          html = ''<!doctype html>\<newline>''
            @ ''<html lang=en>\<newline>''
            @ ''<head>\<newline>''
            @ ''<meta charset=utf-8>\<newline>''
            @ ''<title>'' @ escapeHtml (ToString (codes status)) @ ''</title>\<newline>''
            @ ''</head>\<newline>''
            @ ''<body>\<newline>''
            @ msg @ ''\<newline>''
            @ ''</body>\<newline>''
      in \<lparr>bytes = html, type = ''text/html; charset=utf-8''\<rparr>)"

definition constructTextBody :: "(int \<Rightarrow> string option) \<Rightarrow> int \<Rightarrow> string option \<Rightarrow> buffer" where
  "constructTextBody codes status message =
     (let msg = ToString message @ ''\<newline>''
      in \<lparr>bytes = msg, type = ''text/plain; charset=utf-8''\<rparr>)"

text \<open>
  Lines 108 to 124 of the handler: the negotiation between \<^verbatim>\<open>'html'\<close> and
  \<^verbatim>\<open>'text'\<close>, and the body built by the constructor it selects.
\<close>

definition constructBody :: "deps \<Rightarrow> request \<Rightarrow> int \<Rightarrow> string option \<Rightarrow> buffer" where
  "constructBody d rq status msg =
     (let t = accepts_types d rq [''html'', ''text''];
          construct = (if t = Some ''html'' then constructHtmlBody else constructTextBody)
      in construct (STATUS_CODES d) status msg)"

section \<open>Sending the response\<close>

text \<open>
  \<^verbatim>\<open>res.setHeader\<close> stores the header, and throws once the headers have been sent.
\<close>

definition setHeader :: "string \<Rightarrow> header_value \<Rightarrow> response \<Rightarrow> error + response" where
  "setHeader name v r =
     (if header_sent r then Inl HeadersSent
      else Inr (r\<lparr>headers := (headers r)(name \<mapsto> v)\<rparr>))"

text \<open>\<^verbatim>\<open>res.end\<close>: the headers go out with the first chunk, so \<^verbatim>\<open>res._header\<close> is set.\<close>

definition res_end :: "string option \<Rightarrow> response \<Rightarrow> response" where
  "res_end chunk r = r\<lparr>header_sent := True, end_calls := end_calls r @ [chunk]\<rparr>"

text \<open>
  The closure \<^verbatim>\<open>write\<close> (lines 191 to 207). The status code is assigned first; an
  exception of \<^verbatim>\<open>setHeader\<close> ends the write there, with what was stored so far,
  and is recorded in \<open>thrown\<close>.
\<close>

definition send_write :: "int \<Rightarrow> buffer \<Rightarrow> world \<Rightarrow> world" where
  "send_write status body w =
     (let r0 = (res w)\<lparr>statusCode := status\<rparr>
      in case setHeader ''X-Content-Type-Options'' (HStr ''nosniff'') r0 of
           Inl e \<Rightarrow> w\<lparr>res := r0, thrown := thrown w @ [e]\<rparr>
         | Inr r1 \<Rightarrow>
             (case setHeader ''Content-Type'' (HStr (type body)) r1 of
                Inl e \<Rightarrow> w\<lparr>res := r1, thrown := thrown w @ [e]\<rparr>
              | Inr r2 \<Rightarrow>
                  (case setHeader ''Content-Length'' (HNum (length (bytes body))) r2 of
                     Inl e \<Rightarrow> w\<lparr>res := r2, thrown := thrown w @ [e]\<rparr>
                   | Inr r3 \<Rightarrow>
                       if req_method (req w) = ''HEAD'' then w\<lparr>res := res_end None r3\<rparr>
                       else w\<lparr>res := res_end (Some (bytes body)) r3\<rparr>)))"

text \<open>
  Modelled from the spec: the dependencies \<^verbatim>\<open>on-finished\<close> and \<^verbatim>\<open>unpipe\<close> and
  the stream's \<^verbatim>\<open>resume\<close> are not part of the sources. The spec has them report
  whether the request is drained, remove the readers of the stream, register a one-shot
  callback for the time the request is finished, and resume the consumption of the
  stream. \<^verbatim>\<open>send\<close> registers on a request that is not finished only.
\<close>

definition isFinished :: "request \<Rightarrow> bool" where
  "isFinished r = finished r"

definition unpipe :: "request \<Rightarrow> request" where
  "unpipe r = r\<lparr>pipes := []\<rparr>"

definition onFinished :: "listener \<Rightarrow> request \<Rightarrow> request" where
  "onFinished l r = r\<lparr>listeners := listeners r @ [l]\<rparr>"

definition resume :: "request \<Rightarrow> request" where
  "resume r = r\<lparr>flowing := True\<rparr>"

definition send :: "int \<Rightarrow> buffer \<Rightarrow> world \<Rightarrow> world" where
  "send status body w =
     (if isFinished (req w) then send_write status body w
      else w\<lparr>req := resume (onFinished (Write status body) (unpipe (req w)))\<rparr>)"

text \<open>
  Modelled from the spec: the event of the request reaching its finished state, which
  the stream raises and the sources only subscribe to. The request is marked finished
  and every registered callback runs once, in the order of registration, each on the
  state the one before it left; being one-shot, none stays registered.
\<close>

fun run_listener :: "listener \<Rightarrow> world \<Rightarrow> world" where
  "run_listener (Write status body) w = send_write status body w"

definition request_finished :: "world \<Rightarrow> world" where
  "request_finished w =
     fold run_listener (listeners (req w))
       (w\<lparr>req := (req w)\<lparr>finished := True, listeners := []\<rparr>\<rparr>)"

section \<open>The handler\<close>

text \<open>
  Modelled from the spec: \<^verbatim>\<open>defer\<close> is \<^verbatim>\<open>setImmediate\<close> (or \<^verbatim>\<open>process.nextTick\<close>),
  which queues the call for a later turn of the event loop; \<open>run_deferred\<close> is that
  later turn running the first queued call.
\<close>

definition defer_call :: "fn \<Rightarrow> arg list \<Rightarrow> world \<Rightarrow> world" where
  "defer_call f args w = w\<lparr>deferred := deferred w @ [Task f args]\<rparr>"

definition run_deferred :: "world \<Rightarrow> world" where
  "run_deferred w =
     (case deferred w of [] \<Rightarrow> w
      | t # ts \<Rightarrow> w\<lparr>deferred := ts, invoked := invoked w @ [t]\<rparr>)"

definition destroy :: "request \<Rightarrow> request" where
  "destroy r = r\<lparr>socket_destroyed := True\<rparr>"

text \<open>
  Lines 62 to 94 of the handler: the status and the message, from the error, the
  response's current status code and the request. The message is \<^verbatim>\<open>undefined\<close>
  (\<open>None\<close>) when the table has no entry for the status.
\<close>

definition resolve ::
  "(int \<Rightarrow> string option) \<Rightarrow> bool \<Rightarrow> js_error option \<Rightarrow> request \<Rightarrow> int \<Rightarrow> int \<times> string option" where
  "resolve codes stack_opt err rq status0 =
     (case err of
        Some e \<Rightarrow>
          (let status1 = (if truthy_num (err_statusCode e) then the (err_statusCode e) else status0);
               status2 = (if truthy_num (err_status e) then the (err_status e) else status1);
               status3 = (if status2 = 0 \<or> status2 < 400 then 500 else status2);
               msg = (if stack_opt
                      then Some (if truthy_str (err_stack e) then the (err_stack e) else err_string e)
                      else codes status3)
           in (status3, msg))
      | None \<Rightarrow>
          (404, Some (''Cannot '' @ req_method rq @ '' ''
                  @ (if truthy_str (originalUrl rq) then the (originalUrl rq) else url rq))))"

text \<open>
  Lines 50 to 56: \<^verbatim>\<open>options || {}\<close>, then \<^verbatim>\<open>opts.onerror\<close> and
  \<^verbatim>\<open>opts.stacktrace || false\<close>.
\<close>

definition opt_onerror :: "options option \<Rightarrow> fn option" where
  "opt_onerror opts = (case opts of None \<Rightarrow> None | Some given \<Rightarrow> onerror given)"

definition opt_stacktrace :: "options option \<Rightarrow> bool" where
  "opt_stacktrace opts =
     (case opts of None \<Rightarrow> False
      | Some given \<Rightarrow> (case stacktrace given of None \<Rightarrow> False | Some b \<Rightarrow> b))"

text \<open>Lines 98 to 101: \<^verbatim>\<open>if (err && onerror) defer(onerror, err, req, res)\<close>.\<close>

definition schedule_onerror :: "fn option \<Rightarrow> js_error option \<Rightarrow> world \<Rightarrow> world" where
  "schedule_onerror cb err w =
     (case err of None \<Rightarrow> w
      | Some e \<Rightarrow> (case cb of None \<Rightarrow> w
                  | Some f \<Rightarrow> defer_call f [ArgErr e, ArgReq, ArgRes] w))"

text \<open>
  The function \<^verbatim>\<open>finalhandler(req, res, options)\<close> returns, applied to \<^verbatim>\<open>err\<close>.
  The calls of \<^verbatim>\<open>debug\<close> print to a diagnostic channel and are left out.
\<close>

definition finalhandler :: "deps \<Rightarrow> options option \<Rightarrow> js_error option \<Rightarrow> world \<Rightarrow> world" where
  "finalhandler d opts err w =
     (if err = None \<and> header_sent (res w) then w
      else
        (let (status, msg) =
               resolve (STATUS_CODES d) (opt_stacktrace opts) err (req w) (statusCode (res w));
             w1 = schedule_onerror (opt_onerror opts) err w
         in if header_sent (res w1) then w1\<lparr>req := destroy (req w1)\<rparr>
            else send status (constructBody d (req w1) status msg) w1))"

section \<open>Concrete inputs\<close>

text \<open>
  Modelled from the spec: an excerpt of the reason phrase table, with the three entries
  the spec names (403, 404 and 500). It stands for \<^verbatim>\<open>http.STATUS_CODES\<close> wherever
  a property is evaluated on a concrete input.
\<close>

definition example_codes :: "int \<Rightarrow> string option" where
  "example_codes n =
     (if n = 403 then Some ''Forbidden''
      else if n = 404 then Some ''Not Found''
      else if n = 500 then Some ''Internal Server Error''
      else None)"

text \<open>A negotiation that answers \<^verbatim>\<open>'html'\<close> when the request accepts \<^verbatim>\<open>text/html\<close>.\<close>

definition example_deps :: deps where
  "example_deps = \<lparr>STATUS_CODES = example_codes,
     accepts_types = (\<lambda>rq ts. if accept rq = Some ''text/html'' then Some ''html'' else Some ''text'')\<rparr>"

definition example_request :: "string \<Rightarrow> bool \<Rightarrow> request" where
  "example_request m fin = \<lparr>req_method = m, url = ''/missing'', originalUrl = None,
     accept = Some ''text/plain'', finished = fin, pipes = [''upload''], listeners = [],
     flowing = False, socket_destroyed = False\<rparr>"

definition example_response :: "bool \<Rightarrow> response" where
  "example_response sent = \<lparr>statusCode = 200, header_sent = sent, headers = Map.empty,
     end_calls = []\<rparr>"

definition example_world :: "string \<Rightarrow> bool \<Rightarrow> bool \<Rightarrow> world" where
  "example_world m fin sent = \<lparr>req = example_request m fin, res = example_response sent,
     deferred = [], invoked = [], thrown = []\<rparr>"

definition example_error :: "int option \<Rightarrow> int option \<Rightarrow> js_error" where
  "example_error sc st = \<lparr>err_statusCode = sc, err_status = st,
     err_stack = Some ''Error: boom at f'', err_string = ''Error: boom''\<rparr>"

text \<open>
  The handler called twice before the request has finished: first with no error, then
  with an error whose \<^verbatim>\<open>status\<close> is 403.
\<close>

definition example_called_twice :: world where
  "example_called_twice =
     finalhandler example_deps None (Some (example_error None (Some 403)))
       (finalhandler example_deps None None (example_world ''GET'' False False))"

lemmas example_defs =
  example_codes_def example_deps_def example_request_def example_response_def
  example_world_def example_error_def example_called_twice_def

section \<open>What each step leaves alone\<close>

lemma send_write_frame [simp]:
  "req (send_write status body w) = req w"
  "deferred (send_write status body w) = deferred w"
  "invoked (send_write status body w) = invoked w"
  by (simp_all add: send_write_def setHeader_def Let_def)

lemma send_frame [simp]:
  "deferred (send status body w) = deferred w"
  "invoked (send status body w) = invoked w"
  by (simp_all add: send_def)

lemma schedule_onerror_frame [simp]:
  "req (schedule_onerror cb err w) = req w"
  "res (schedule_onerror cb err w) = res w"
  "invoked (schedule_onerror cb err w) = invoked w"
  "thrown (schedule_onerror cb err w) = thrown w"
  by (simp_all add: schedule_onerror_def defer_call_def split: option.splits)

lemma finalhandler_responds:
  assumes "\<not> header_sent (res w)"
  shows "finalhandler d opts err w =
           send (fst (resolve (STATUS_CODES d) (opt_stacktrace opts) err (req w) (statusCode (res w))))
             (constructBody d (req w)
                (fst (resolve (STATUS_CODES d) (opt_stacktrace opts) err (req w) (statusCode (res w))))
                (snd (resolve (STATUS_CODES d) (opt_stacktrace opts) err (req w) (statusCode (res w)))))
             (schedule_onerror (opt_onerror opts) err w)"
  using assms by (simp add: finalhandler_def split_beta)

section \<open>The status of an error\<close>

lemma resolve_error_status:
  "fst (resolve codes so (Some e) rq s0) =
     (let s = (if truthy_num (err_status e) then the (err_status e)
               else if truthy_num (err_statusCode e) then the (err_statusCode e)
               else s0)
      in if s < 400 then 500 else s)"
  by (simp add: resolve_def Let_def)


text \<open>
  C2, as the claim states it, fails: an error with \<^verbatim>\<open>statusCode\<close> 404 and
  \<^verbatim>\<open>status\<close> 503, both truthy, resolves to 503 and not to the value of
  \<^verbatim>\<open>statusCode\<close>.
\<close>

theorem status_field_overrides_statusCode:
  "truthy_num (err_statusCode (example_error (Some 404) (Some 503)))
   \<and> truthy_num (err_status (example_error (Some 404) (Some 503)))
   \<and> err_statusCode (example_error (Some 404) (Some 503)) = Some 404
   \<and> fst (resolve example_codes False (Some (example_error (Some 404) (Some 503)))
        (example_request ''GET'' True) 200) \<noteq> 404
   \<and> fst (resolve example_codes False (Some (example_error (Some 404) (Some 503)))
        (example_request ''GET'' True) 200) = 503"
  by (simp add: resolve_def example_error_def truthy_num_def)

text \<open>
  C2, amended: for an error with a truthy \<^verbatim>\<open>statusCode\<close> and a truthy \<^verbatim>\<open>status\<close>,
  \<^verbatim>\<open>statusCode\<close> is checked first and \<^verbatim>\<open>status\<close> second, and the later
  assignment stands: the resolved status is the value of \<^verbatim>\<open>status\<close> when that is
  at least 400, and 500 otherwise. The value of \<^verbatim>\<open>statusCode\<close> plays no part.
\<close>

theorem resolve_both_fields:
  assumes "truthy_num (err_statusCode e)" and "truthy_num (err_status e)"
  shows "fst (resolve codes so (Some e) rq s0) =
           (if the (err_status e) < 400 then 500 else the (err_status e))"
  using assms by (simp add: resolve_error_status)

theorem resolve_both_fields_witness:
  "truthy_num (err_statusCode (example_error (Some 404) (Some 503)))
   \<and> truthy_num (err_status (example_error (Some 404) (Some 503)))
   \<and> fst (resolve example_codes False (Some (example_error (Some 404) (Some 503)))
        (example_request ''GET'' True) 200) = 503
   \<and> fst (resolve example_codes False (Some (example_error (Some 404) (Some 302)))
        (example_request ''GET'' True) 200) = 500"
  using resolve_both_fields [of "example_error (Some 404) (Some 503)" example_codes False
      "example_request ''GET'' True" 200]
    resolve_both_fields [of "example_error (Some 404) (Some 302)" example_codes False
      "example_request ''GET'' True" 200]
  by (simp add: example_error_def truthy_num_def)

text \<open>
  C3, as the claim states it, fails: an error with no status field at all, on a
  response whose status code is already 503, resolves to 503 and not to 500.
\<close>

theorem absent_status_keeps_response_status:
  "err_statusCode (example_error None None) = None
   \<and> err_status (example_error None None) = None
   \<and> fst (resolve example_codes False (Some (example_error None None))
        (example_request ''GET'' True) 503) \<noteq> 500
   \<and> fst (resolve example_codes False (Some (example_error None None))
        (example_request ''GET'' True) 503) = 503"
  by (simp add: resolve_def example_error_def truthy_num_def)

text \<open>
  C3, amended: the explicit status of an error is its \<^verbatim>\<open>status\<close> field when that
  is truthy, and its \<^verbatim>\<open>statusCode\<close> field otherwise. If the explicit status is truthy
  and at least 400 (so also when it lies in [100,599)), the resolved status equals it; if
  it is truthy and below 400, the resolved status is 500; if it is zero or absent, the
  resolved status is the response's current status code when that is at least 400, and
  500 otherwise.
\<close>

theorem resolve_status_cases:
  "(truthy_num (err_status e) \<and> 400 \<le> the (err_status e)
      \<longrightarrow> fst (resolve codes so (Some e) rq s0) = the (err_status e))
   \<and> (\<not> truthy_num (err_status e) \<and> truthy_num (err_statusCode e)
        \<and> 400 \<le> the (err_statusCode e)
      \<longrightarrow> fst (resolve codes so (Some e) rq s0) = the (err_statusCode e))
   \<and> (truthy_num (err_status e) \<and> the (err_status e) < 400
      \<longrightarrow> fst (resolve codes so (Some e) rq s0) = 500)
   \<and> (\<not> truthy_num (err_status e) \<and> truthy_num (err_statusCode e)
        \<and> the (err_statusCode e) < 400
      \<longrightarrow> fst (resolve codes so (Some e) rq s0) = 500)
   \<and> (\<not> truthy_num (err_status e) \<and> \<not> truthy_num (err_statusCode e)
      \<longrightarrow> fst (resolve codes so (Some e) rq s0) = (if s0 < 400 then 500 else s0))"
  by (simp add: resolve_error_status)

theorem resolve_status_cases_witness:
  "fst (resolve example_codes False (Some (example_error None (Some 403)))
        (example_request ''GET'' True) 200) = 403
   \<and> fst (resolve example_codes False (Some (example_error (Some 404) (Some 0)))
        (example_request ''GET'' True) 200) = 404
   \<and> fst (resolve example_codes False (Some (example_error (Some 404) (Some 302)))
        (example_request ''GET'' True) 200) = 500
   \<and> fst (resolve example_codes False (Some (example_error (Some 204) None))
        (example_request ''GET'' True) 200) = 500
   \<and> fst (resolve example_codes False (Some (example_error None (Some 0)))
        (example_request ''GET'' True) 200) = 500
   \<and> fst (resolve example_codes False (Some (example_error None None))
        (example_request ''GET'' True) 503) = 503"
  using resolve_status_cases [of "example_error None (Some 403)" example_codes False
      "example_request ''GET'' True" 200]
    resolve_status_cases [of "example_error (Some 404) (Some 0)" example_codes False
      "example_request ''GET'' True" 200]
    resolve_status_cases [of "example_error (Some 404) (Some 302)" example_codes False
      "example_request ''GET'' True" 200]
    resolve_status_cases [of "example_error (Some 204) None" example_codes False
      "example_request ''GET'' True" 200]
    resolve_status_cases [of "example_error None (Some 0)" example_codes False
      "example_request ''GET'' True" 200]
    resolve_status_cases [of "example_error None None" example_codes False
      "example_request ''GET'' True" 503]
  by (simp add: example_error_def truthy_num_def)


section \<open>Writing, now or when the request has finished\<close>

lemma send_write_res:
  assumes "\<not> header_sent (res w)"
  shows "res (send_write status body w) =
     (res w)\<lparr>statusCode := status, header_sent := True,
       headers := (headers (res w))(''X-Content-Type-Options'' \<mapsto> HStr ''nosniff'',
          ''Content-Type'' \<mapsto> HStr (type body),
          ''Content-Length'' \<mapsto> HNum (length (bytes body))),
       end_calls := end_calls (res w)
          @ [if req_method (req w) = ''HEAD'' then None else Some (bytes body)]\<rparr>"
  using assms by (simp add: send_write_def setHeader_def res_end_def Let_def)


lemma send_write_sent:
  assumes "header_sent (res w)"
  shows "res (send_write status body w) = (res w)\<lparr>statusCode := status\<rparr>"
    and "thrown (send_write status body w) = thrown w @ [HeadersSent]"
  using assms by (simp_all add: send_write_def setHeader_def Let_def)

lemma send_write_statusCode [simp]:
  "statusCode (res (send_write status body w)) = status"
  by (cases "header_sent (res w)") (simp_all add: send_write_res send_write_sent)


lemma fold_run_listener_req [simp]:
  "req (fold run_listener ls w) = req w"
proof (induction ls arbitrary: w)
  case Nil
  show ?case by simp
next
  case (Cons l ls)
  show ?case by (cases l) (simp add: Cons.IH)
qed

lemma request_finished_idle:
  assumes "listeners (req w) = []"
  shows "request_finished w = w\<lparr>req := (req w)\<lparr>finished := True, listeners := []\<rparr>\<rparr>"
  using assms by (simp add: request_finished_def)



lemma send_unfinished:
  assumes "\<not> finished (req w)"
  shows "send status body w =
           w\<lparr>req := (req w)\<lparr>pipes := [], listeners := listeners (req w) @ [Write status body],
                  flowing := True\<rparr>\<rparr>"
  using assms by (simp add: send_def isFinished_def unpipe_def onFinished_def resume_def)


lemma request_finished_send_alone:
  assumes "\<not> finished (req w)" and "listeners (req w) = []"
  shows "request_finished (send status body w) =
           send_write status body
             (w\<lparr>req := (req w)\<lparr>finished := True, pipes := [], listeners := [],
                    flowing := True\<rparr>\<rparr>)"
  using assms by (cases "req w") (simp add: send_unfinished request_finished_def)





section \<open>No error: the 404 response\<close>

text \<open>
  C4: with no error and the headers not sent, the status is 404 and the message is
  \<^verbatim>\<open>'Cannot '\<close>, the method, a space and the URL, the original URL when the request
  has a non-empty one and the current URL otherwise; the handler sends exactly this
  status with the body built from this message, and when the negotiation does not
  answer \<^verbatim>\<open>'html'\<close> the body is the message and a newline, as plain text.
\<close>

theorem not_found_response:
  assumes "\<not> header_sent (res w)"
  shows "resolve (STATUS_CODES d) (opt_stacktrace opts) None (req w) (statusCode (res w)) =
           (404, Some (''Cannot '' @ req_method (req w) @ '' ''
              @ (if truthy_str (originalUrl (req w)) then the (originalUrl (req w))
                 else url (req w))))
     \<and> finalhandler d opts None w =
           send 404
             (constructBody d (req w) 404
                (Some (''Cannot '' @ req_method (req w) @ '' ''
                   @ (if truthy_str (originalUrl (req w)) then the (originalUrl (req w))
                      else url (req w)))))
             w
     \<and> (accepts_types d (req w) [''html'', ''text''] \<noteq> Some ''html'' \<longrightarrow>
          constructBody d (req w) 404 (Some m) =
            \<lparr>bytes = m @ ''\<newline>'', type = ''text/plain; charset=utf-8''\<rparr>)"
proof -
  have resolved: "resolve (STATUS_CODES d) (opt_stacktrace opts) None (req w) (statusCode (res w)) =
           (404, Some (''Cannot '' @ req_method (req w) @ '' ''
              @ (if truthy_str (originalUrl (req w)) then the (originalUrl (req w))
                 else url (req w))))"
    by (simp add: resolve_def)
  have unscheduled: "schedule_onerror (opt_onerror opts) None w = w"
    by (simp add: schedule_onerror_def)
  have sent: "finalhandler d opts None w =
           send 404
             (constructBody d (req w) 404
                (Some (''Cannot '' @ req_method (req w) @ '' ''
                   @ (if truthy_str (originalUrl (req w)) then the (originalUrl (req w))
                      else url (req w)))))
             w"
    using finalhandler_responds [OF assms, of d opts None]
    by (simp only: resolved unscheduled fst_conv snd_conv)
  have plain: "accepts_types d (req w) [''html'', ''text''] \<noteq> Some ''html'' \<longrightarrow>
          constructBody d (req w) 404 (Some m) =
            \<lparr>bytes = m @ ''\<newline>'', type = ''text/plain; charset=utf-8''\<rparr>"
    by (simp add: constructBody_def constructTextBody_def ToString_def)
  from resolved sent plain show ?thesis by blast
qed

theorem not_found_response_witness:
  "\<not> header_sent (res (example_world ''GET'' True False))
   \<and> statusCode (res (finalhandler example_deps None None (example_world ''GET'' True False))) = 404
   \<and> end_calls (res (finalhandler example_deps None None (example_world ''GET'' True False))) =
       [Some ''Cannot GET /missing\<newline>'']
   \<and> headers (res (finalhandler example_deps None None (example_world ''GET'' True False)))
        ''Content-Type'' = Some (HStr ''text/plain; charset=utf-8'')
   \<and> end_calls (res (finalhandler example_deps None None (example_world ''GET'' False False))) = []
   \<and> statusCode (res (request_finished
        (finalhandler example_deps None None (example_world ''GET'' False False)))) = 404
   \<and> end_calls (res (request_finished
        (finalhandler example_deps None None (example_world ''GET'' False False)))) =
       [Some ''Cannot GET /missing\<newline>'']"
  using not_found_response [of "example_world ''GET'' True False" example_deps None
      "''Cannot GET /missing''"]
    not_found_response [of "example_world ''GET'' False False" example_deps None
      "''Cannot GET /missing''"]
  by (simp add: example_defs truthy_str_def send_def isFinished_def send_write_res
      request_finished_def unpipe_def onFinished_def resume_def)

section \<open>Headers already sent\<close>

text \<open>
  C5: when the headers of the response have been sent, the handler called with no
  error returns the state as it found it; called with an error it destroys the socket
  of the request, leaves the response as it is (no status, header or body is written)
  and registers no write, the deferred error callback being its only other effect.
\<close>

theorem headers_already_sent:
  assumes "header_sent (res w)"
  shows "finalhandler d opts None w = w
     \<and> finalhandler d opts (Some e) w =
         (schedule_onerror (opt_onerror opts) (Some e) w)\<lparr>req := destroy (req w)\<rparr>
     \<and> socket_destroyed (req (finalhandler d opts (Some e) w))
     \<and> res (finalhandler d opts (Some e) w) = res w
     \<and> listeners (req (finalhandler d opts (Some e) w)) = listeners (req w)"
  using assms by (simp add: finalhandler_def split_beta destroy_def)

theorem headers_already_sent_witness:
  "header_sent (res (example_world ''GET'' True True))
   \<and> finalhandler example_deps None None (example_world ''GET'' True True) =
       example_world ''GET'' True True
   \<and> socket_destroyed (req (finalhandler example_deps None (Some (example_error None None))
        (example_world ''GET'' True True)))
   \<and> end_calls (res (finalhandler example_deps None (Some (example_error None None))
        (example_world ''GET'' True True))) = []
   \<and> statusCode (res (finalhandler example_deps None (Some (example_error None None))
        (example_world ''GET'' True True))) = 200"
proof -
  let ?w = "example_world ''GET'' True True"
  have sent: "header_sent (res ?w)"
    by (simp add: example_defs)
  have before: "end_calls (res ?w) = []" "statusCode (res ?w) = 200"
    by (simp_all add: example_defs)
  from headers_already_sent [OF sent, of example_deps None "example_error None None"]
    sent before
  show ?thesis by (simp add: destroy_def)
qed


section \<open>The message of an error\<close>




section \<open>The error callback\<close>

text \<open>
  C9: called with an error, a handler that was given an error callback queues exactly
  one deferred call of it, with the error, the request and the response as arguments,
  and runs no deferred call itself; this holds in every state, so also when the headers
  have been sent and the socket is destroyed. The queued call runs in a later turn.
\<close>

theorem onerror_deferred:
  assumes "opt_onerror opts = Some f"
  shows "deferred (finalhandler d opts (Some e) w) =
           deferred w @ [Task f [ArgErr e, ArgReq, ArgRes]]
     \<and> invoked (finalhandler d opts (Some e) w) = invoked w
     \<and> (header_sent (res w) \<longrightarrow> socket_destroyed (req (finalhandler d opts (Some e) w)))
     \<and> (deferred w = [] \<longrightarrow>
          invoked (run_deferred (finalhandler d opts (Some e) w)) =
            invoked w @ [Task f [ArgErr e, ArgReq, ArgRes]]
          \<and> deferred (run_deferred (finalhandler d opts (Some e) w)) = [])"
proof -
  have queued: "deferred (finalhandler d opts (Some e) w) =
      deferred w @ [Task f [ArgErr e, ArgReq, ArgRes]]"
    using assms
    by (simp add: finalhandler_def split_beta schedule_onerror_def defer_call_def Let_def)
  have not_run: "invoked (finalhandler d opts (Some e) w) = invoked w"
    by (simp add: finalhandler_def split_beta Let_def)
  have destroyed: "header_sent (res w) \<longrightarrow> socket_destroyed (req (finalhandler d opts (Some e) w))"
    by (simp add: finalhandler_def split_beta Let_def destroy_def)
  from queued not_run destroyed show ?thesis
    by (simp add: run_deferred_def)
qed

theorem onerror_deferred_witness:
  "opt_onerror (Some \<lparr>onerror = Some (Fn ''report''), stacktrace = None\<rparr>) = Some (Fn ''report'')
   \<and> deferred (finalhandler example_deps (Some \<lparr>onerror = Some (Fn ''report''), stacktrace = None\<rparr>)
        (Some (example_error None None)) (example_world ''GET'' True False)) =
       [Task (Fn ''report'') [ArgErr (example_error None None), ArgReq, ArgRes]]
   \<and> invoked (finalhandler example_deps (Some \<lparr>onerror = Some (Fn ''report''), stacktrace = None\<rparr>)
        (Some (example_error None None)) (example_world ''GET'' True False)) = []
   \<and> deferred (finalhandler example_deps (Some \<lparr>onerror = Some (Fn ''report''), stacktrace = None\<rparr>)
        (Some (example_error None None)) (example_world ''GET'' True True)) =
       [Task (Fn ''report'') [ArgErr (example_error None None), ArgReq, ArgRes]]
   \<and> socket_destroyed (req (finalhandler example_deps
        (Some \<lparr>onerror = Some (Fn ''report''), stacktrace = None\<rparr>)
        (Some (example_error None None)) (example_world ''GET'' True True)))"
proof -
  let ?opts = "Some \<lparr>onerror = Some (Fn ''report''), stacktrace = None\<rparr>"
  have given: "opt_onerror ?opts = Some (Fn ''report'')"
    by (simp add: opt_onerror_def)
  have empty: "deferred (example_world ''GET'' True False) = []"
    "invoked (example_world ''GET'' True False) = []"
    "deferred (example_world ''GET'' True True) = []"
    "header_sent (res (example_world ''GET'' True True))"
    by (simp_all add: example_world_def example_response_def)
  from onerror_deferred [OF given, of example_deps "example_error None None"
      "example_world ''GET'' True False"]
    onerror_deferred [OF given, of example_deps "example_error None None"
      "example_world ''GET'' True True"]
    given empty
  show ?thesis by simp
qed


section \<open>Statuses beyond the HTTP range\<close>



section \<open>HEAD requests\<close>

lemma constructBody_kinds:
  "constructBody d rq status msg = constructHtmlBody (STATUS_CODES d) status msg
   \<or> constructBody d rq status msg = constructTextBody (STATUS_CODES d) status msg"
  by (simp add: constructBody_def)

lemma constructBody_nonempty:
  "0 < length (bytes (constructBody d rq status msg))"
  by (simp add: constructBody_def constructHtmlBody_def constructTextBody_def)

text \<open>
  C8: for a request whose method is \<^verbatim>\<open>HEAD\<close> the write that finalizes a response,
  one whose headers are still unsent, ends it without a body, whatever body was
  rendered, and still sets \<^verbatim>\<open>Content-Length\<close> to the number of bytes of the rendered
  body, \<^verbatim>\<open>Content-Type\<close> to its type and \<^verbatim>\<open>X-Content-Type-Options\<close> to
  \<^verbatim>\<open>nosniff\<close>. So does the handler, at once on a finished request and at the
  finished event when its write is the only one registered, with the body it renders
  for the negotiated type, html or text, which is never empty.
\<close>

theorem head_response:
  assumes "req_method (req w) = ''HEAD''" and "\<not> header_sent (res w)"
  shows "end_calls (res (send_write status body w)) = end_calls (res w) @ [None]
     \<and> headers (res (send_write status body w)) ''Content-Length'' =
         Some (HNum (length (bytes body)))
     \<and> headers (res (send_write status body w)) ''Content-Type'' = Some (HStr (type body))
     \<and> headers (res (send_write status body w)) ''X-Content-Type-Options'' =
         Some (HStr ''nosniff'')
     \<and> (finished (req w) \<or> listeners (req w) = [] \<longrightarrow>
          (\<exists>rendered.
             (rendered = constructHtmlBody (STATUS_CODES d)
                  (fst (resolve (STATUS_CODES d) (opt_stacktrace opts) err (req w) (statusCode (res w))))
                  (snd (resolve (STATUS_CODES d) (opt_stacktrace opts) err (req w) (statusCode (res w))))
              \<or> rendered = constructTextBody (STATUS_CODES d)
                  (fst (resolve (STATUS_CODES d) (opt_stacktrace opts) err (req w) (statusCode (res w))))
                  (snd (resolve (STATUS_CODES d) (opt_stacktrace opts) err (req w) (statusCode (res w)))))
             \<and> 0 < length (bytes rendered)
             \<and> (let w' = (if finished (req w) then finalhandler d opts err w
                          else request_finished (finalhandler d opts err w))
                in end_calls (res w') = end_calls (res w) @ [None]
                   \<and> headers (res w') ''Content-Length'' = Some (HNum (length (bytes rendered)))
                   \<and> headers (res w') ''Content-Type'' = Some (HStr (type rendered))
                   \<and> headers (res w') ''X-Content-Type-Options'' = Some (HStr ''nosniff''))))"
proof -
  let ?status = "fst (resolve (STATUS_CODES d) (opt_stacktrace opts) err (req w) (statusCode (res w)))"
  let ?msg = "snd (resolve (STATUS_CODES d) (opt_stacktrace opts) err (req w) (statusCode (res w)))"
  let ?body = "constructBody d (req w) ?status ?msg"
  let ?w1 = "schedule_onerror (opt_onerror opts) err w"
  let ?u = "?w1\<lparr>req := (req w)\<lparr>finished := True, pipes := [], listeners := [], flowing := True\<rparr>\<rparr>"
  have written: "end_calls (res (send_write status' body' u)) = end_calls (res u) @ [None]
     \<and> headers (res (send_write status' body' u)) ''Content-Length'' =
         Some (HNum (length (bytes body')))
     \<and> headers (res (send_write status' body' u)) ''Content-Type'' = Some (HStr (type body'))
     \<and> headers (res (send_write status' body' u)) ''X-Content-Type-Options'' =
         Some (HStr ''nosniff'')"
    if "req_method (req u) = ''HEAD''" and "\<not> header_sent (res u)" for status' body' u
    using that by (simp add: send_write_res)
  have sent: "finalhandler d opts err w = send ?status ?body ?w1"
    using assms(2) by (rule finalhandler_responds)
  have handled: "\<exists>rendered.
             (rendered = constructHtmlBody (STATUS_CODES d) ?status ?msg
              \<or> rendered = constructTextBody (STATUS_CODES d) ?status ?msg)
             \<and> 0 < length (bytes rendered)
             \<and> (let w' = (if finished (req w) then finalhandler d opts err w
                          else request_finished (finalhandler d opts err w))
                in end_calls (res w') = end_calls (res w) @ [None]
                   \<and> headers (res w') ''Content-Length'' = Some (HNum (length (bytes rendered)))
                   \<and> headers (res w') ''Content-Type'' = Some (HStr (type rendered))
                   \<and> headers (res w') ''X-Content-Type-Options'' = Some (HStr ''nosniff''))"
    if ready: "finished (req w) \<or> listeners (req w) = []"
  proof (cases "finished (req w)")
    case True
    then have final: "(if finished (req w) then finalhandler d opts err w
                  else request_finished (finalhandler d opts err w)) =
        send_write ?status ?body ?w1"
      by (simp add: sent send_def isFinished_def)
    have head: "req_method (req ?w1) = ''HEAD''" "\<not> header_sent (res ?w1)"
      using assms by simp_all
    from written [OF head, of ?status ?body]
      constructBody_kinds [of d "req w" ?status ?msg]
      constructBody_nonempty [of d "req w" ?status ?msg]
    show ?thesis
      unfolding final Let_def by (intro exI [of _ ?body]) simp
  next
    case False
    with ready have first: "listeners (req w) = []"
      by blast
    have "request_finished (send ?status ?body ?w1) =
        send_write ?status ?body
          (?w1\<lparr>req := (req ?w1)\<lparr>finished := True, pipes := [], listeners := [],
                 flowing := True\<rparr>\<rparr>)"
      using False first by (intro request_finished_send_alone) simp_all
    then have fired: "request_finished (finalhandler d opts err w) = send_write ?status ?body ?u"
      by (simp add: sent)
    from False have final: "(if finished (req w) then finalhandler d opts err w
                  else request_finished (finalhandler d opts err w)) =
        send_write ?status ?body ?u"
      by (simp add: fired)
    have head: "req_method (req ?u) = ''HEAD''" "\<not> header_sent (res ?u)"
      using assms by simp_all
    from written [OF head, of ?status ?body]
      constructBody_kinds [of d "req w" ?status ?msg]
      constructBody_nonempty [of d "req w" ?status ?msg]
    show ?thesis
      unfolding final Let_def by (intro exI [of _ ?body]) simp
  qed
  from written [OF assms, of status body] handled show ?thesis by blast
qed

theorem head_response_witness:
  "req_method (req (example_world ''HEAD'' True False)) = ''HEAD''
   \<and> \<not> header_sent (res (example_world ''HEAD'' True False))
   \<and> end_calls (res (finalhandler example_deps None None (example_world ''HEAD'' True False))) = [None]
   \<and> headers (res (finalhandler example_deps None None (example_world ''HEAD'' True False)))
        ''Content-Length'' = Some (HNum 21)
   \<and> headers (res (finalhandler example_deps None None (example_world ''HEAD'' True False)))
        ''Content-Type'' = Some (HStr ''text/plain; charset=utf-8'')
   \<and> headers (res (finalhandler example_deps None None (example_world ''HEAD'' True False)))
        ''X-Content-Type-Options'' = Some (HStr ''nosniff'')
   \<and> end_calls (res (request_finished
        (finalhandler example_deps None None (example_world ''HEAD'' False False)))) = [None]"
  using head_response [of "example_world ''HEAD'' True False" 404
      "constructTextBody example_codes 404 (Some ''Cannot HEAD /missing'')" example_deps None None]
  by (simp add: example_defs finalhandler_def resolve_def truthy_str_def opt_stacktrace_def
      opt_onerror_def schedule_onerror_def constructBody_def constructTextBody_def
      ToString_def send_def isFinished_def send_write_def setHeader_def res_end_def
      request_finished_def unpipe_def onFinished_def resume_def Let_def)

section \<open>The HTML body\<close>

lemma escapeHtml_append:
  "escapeHtml (xs @ ys) = escapeHtml xs @ escapeHtml ys"
  by (simp add: escapeHtml_def)







lemma has_double_space_Cons:
  "has_double_space (x # c # cs) = ((x = CHR '' '' \<and> c = CHR '' '') \<or> has_double_space (c # cs))"
  by simp






end
